theory Spec2Isabelle
  imports Complex_Main
begin

section \<open>Python values shared by both source files\<close>

text \<open>
  Exceptions are values. An exception carries its class and the pieces of its
  message: the source builds its messages with f-strings, so a message is a list of
  literal texts and formatted values. The classes named are those the two files
  and the libraries modelled below raise; any other class goes by its name.
\<close>

datatype msg_part = Txt string | Num int | Flt real

datatype exc_class = ValueError | RuntimeError | TypeError | OtherError string

datatype error = Exc exc_class "msg_part list"

fun exc_class_of :: "error \<Rightarrow> exc_class" where
  "exc_class_of (Exc c m) = c"

fun raises :: "exc_class \<Rightarrow> error + 'a \<Rightarrow> bool" where
  "raises c (Inl e) = (exc_class_of e = c)"
| "raises c (Inr v) = False"

text \<open>
  \<^verbatim>\<open>str.lower()\<close> on ASCII text: the twenty-six capital letters are mapped to
  their small letters, every other character is kept. (Strings are byte strings
  here; Python's Unicode case mapping outside ASCII is not modelled.)
\<close>

definition lower_char :: "char \<Rightarrow> char" where
  "lower_char c =
     (case map_of (zip ''ABCDEFGHIJKLMNOPQRSTUVWXYZ'' ''abcdefghijklmnopqrstuvwxyz'') c of
        Some d \<Rightarrow> d
      | None \<Rightarrow> c)"

definition upper_char :: "char \<Rightarrow> char" where
  "upper_char c =
     (case map_of (zip ''abcdefghijklmnopqrstuvwxyz'' ''ABCDEFGHIJKLMNOPQRSTUVWXYZ'') c of
        Some d \<Rightarrow> d
      | None \<Rightarrow> c)"

definition py_lower :: "string \<Rightarrow> string" where
  "py_lower s = map lower_char s"

definition py_upper :: "string \<Rightarrow> string" where
  "py_upper s = map upper_char s"

text \<open>Two strings are equal up to case when their lower-case forms coincide.\<close>

definition ci_equal :: "string \<Rightarrow> string \<Rightarrow> bool" where
  "ci_equal s t = (py_lower s = py_lower t)"

section \<open>models.py: NeuralNetwork\<close>

text \<open>
  The modules the constructor puts into its \<^verbatim>\<open>nn.Sequential\<close>. A module a caller
  passes in as the activation is opaque: \<open>Module k\<close>.
\<close>

datatype nn_module =
    Linear int int
  | BatchNorm1d int
  | ReLU
  | LeakyReLU
  | Tanh
  | Sigmoid
  | Dropout real
  | Softmax int
  | Module nat

text \<open>The \<^verbatim>\<open>activation\<close> argument, \<^verbatim>\<open>Union[str, nn.Module]\<close>.\<close>

datatype activation = Str string | Mod nn_module

text \<open>
  The library constructors the loop calls, with the argument checks PyTorch makes:
  \<^verbatim>\<open>nn.Linear\<close> and \<^verbatim>\<open>nn.BatchNorm1d\<close> allocate their parameters and fail with a
  RuntimeError on a negative size; \<^verbatim>\<open>nn.Dropout(p)\<close> raises ValueError unless
  \<open>0 \<le> p \<le> 1\<close>.
\<close>

definition negative_dimension :: "int \<Rightarrow> error" where
  "negative_dimension d =
     Exc RuntimeError [Txt ''Trying to create tensor with negative dimension '', Num d]"

definition nn_Linear :: "int \<Rightarrow> int \<Rightarrow> error + nn_module" where
  "nn_Linear in_features out_features =
     (if out_features < 0 then Inl (negative_dimension out_features)
      else if in_features < 0 then Inl (negative_dimension in_features)
      else Inr (Linear in_features out_features))"

definition nn_BatchNorm1d :: "int \<Rightarrow> error + nn_module" where
  "nn_BatchNorm1d num_features =
     (if num_features < 0 then Inl (negative_dimension num_features)
      else Inr (BatchNorm1d num_features))"

definition nn_Dropout :: "real \<Rightarrow> error + nn_module" where
  "nn_Dropout p =
     (if p < 0 \<or> p > 1
      then Inl (Exc ValueError
                 [Txt ''dropout probability has to be between 0 and 1, but got '', Flt p])
      else Inr (Dropout p))"

text \<open>Lines 67 to 79: the activation function is looked up by its lower-case name.\<close>

definition unknown_activation :: "string \<Rightarrow> error" where
  "unknown_activation s = Exc ValueError [Txt ''Unknown activation function: '', Txt s]"

definition act_fn_of :: "activation \<Rightarrow> error + nn_module" where
  "act_fn_of a =
     (case a of
        Str s \<Rightarrow>
          (if py_lower s = ''relu'' then Inr ReLU
           else if py_lower s = ''leaky_relu'' then Inr LeakyReLU
           else if py_lower s = ''tanh'' then Inr Tanh
           else if py_lower s = ''sigmoid'' then Inr Sigmoid
           else Inl (unknown_activation s))
      | Mod m \<Rightarrow> Inr m)"

text \<open>
  Lines 82 to 96: the loop over \<^verbatim>\<open>hidden_dims\<close>, with its two variables \<^verbatim>\<open>layers\<close>
  and \<^verbatim>\<open>prev_dim\<close>. One round appends the linear layer, the batch norm when asked
  for, the activation, and the dropout when \<^verbatim>\<open>dropout > 0\<close>, in this order; the
  first constructor that raises ends the loop.
\<close>

fun hidden_loop ::
  "nn_module list \<Rightarrow> int \<Rightarrow> int list \<Rightarrow> nn_module \<Rightarrow> real \<Rightarrow> bool \<Rightarrow>
     error + (nn_module list \<times> int)" where
  "hidden_loop layers prev_dim [] act_fn dropout batch_norm = Inr (layers, prev_dim)"
| "hidden_loop layers prev_dim (dim_i # rest) act_fn dropout batch_norm =
     (case nn_Linear prev_dim dim_i of
        Inl e \<Rightarrow> Inl e
      | Inr lin \<Rightarrow>
          (case (if batch_norm then map_sum id (\<lambda>m. [m]) (nn_BatchNorm1d dim_i) else Inr []) of
             Inl e \<Rightarrow> Inl e
           | Inr bn \<Rightarrow>
               (case (if dropout > 0 then map_sum id (\<lambda>m. [m]) (nn_Dropout dropout) else Inr []) of
                  Inl e \<Rightarrow> Inl e
                | Inr dr \<Rightarrow>
                    hidden_loop (layers @ [lin] @ bn @ [act_fn] @ dr) dim_i rest
                      act_fn dropout batch_norm)))"

record NeuralNetwork =
  layers :: "nn_module list"

text \<open>\<^verbatim>\<open>NeuralNetwork.__init__\<close>, lines 59 to 102.\<close>

definition NeuralNetwork_init ::
  "int \<Rightarrow> int \<Rightarrow> int list \<Rightarrow> activation \<Rightarrow> real \<Rightarrow> bool \<Rightarrow> error + NeuralNetwork" where
  "NeuralNetwork_init input_dim output_dim hidden_dims activation dropout batch_norm =
     (case act_fn_of activation of
        Inl e \<Rightarrow> Inl e
      | Inr act_fn \<Rightarrow>
          (case hidden_loop [] input_dim hidden_dims act_fn dropout batch_norm of
             Inl e \<Rightarrow> Inl e
           | Inr (ls, prev_dim) \<Rightarrow>
               (case nn_Linear prev_dim output_dim of
                  Inl e \<Rightarrow> Inl e
                | Inr out \<Rightarrow> Inr \<lparr>layers = ls @ [out, Softmax 1]\<rparr>)))"

text \<open>
  The activation names the constructor knows, and the arguments it rejects: a string
  that is not, up to case, one of these names.
\<close>

definition activation_names :: "string list" where
  "activation_names = [''relu'', ''leaky_relu'', ''tanh'', ''sigmoid'']"

definition rejected_activation :: "activation \<Rightarrow> bool" where
  "rejected_activation a =
     (case a of
        Str s \<Rightarrow> \<not> list_ex (ci_equal s) activation_names
      | Mod m \<Rightarrow> False)"

section \<open>models.py: LinearClassifier\<close>

text \<open>
  A two-dimensional tensor is the list of its rows. Entries are real numbers: the
  arithmetic below is exact, the rounding of the machine's floating point numbers is
  not modelled.
\<close>

type_synonym matrix = "real list list"

text \<open>
  \<^verbatim>\<open>nn.Linear\<close> with its parameters: a weight of \<open>out_features\<close> rows of
  \<open>in_features\<close> entries, and a bias of \<open>out_features\<close> entries unless the layer
  was built with \<^verbatim>\<open>bias=False\<close>.
\<close>

record linear_layer =
  in_features :: nat
  out_features :: nat
  weight :: matrix
  bias :: "real list option"











section \<open>The program and what surrounds it\<close>

text \<open>
  Both source files call modules of the repository that are outside the sources at
  hand (\<^verbatim>\<open>qrc_layer\<close>, \<^verbatim>\<open>feature_reduction\<close>, \<^verbatim>\<open>data_processing\<close>, \<^verbatim>\<open>training\<close>,
  \<^verbatim>\<open>visualization\<close>, \<^verbatim>\<open>cli_utils\<close>) and libraries. These collaborators are
  parameters of the model: an environment of functions over a world \<open>'w\<close>, which
  stands for everything they can read and change (the global random generators, the
  file system, the objects on the heap, the terminal). Nothing is assumed of them: a
  call may change the world, and it may raise instead of returning.
  Python objects of their classes are references, \<open>obj\<close>.
\<close>

type_synonym obj = nat

text \<open>A dataset is the dictionary \<^verbatim>\<open>load_dataset\<close> returns; \<^verbatim>\<open>main\<close> reads
  \<^verbatim>\<open>["metadata"]["n_samples"]\<close>, \<^verbatim>\<open>["metadata"]["n_classes"]\<close> and \<^verbatim>\<open>["targets"]\<close>.\<close>

record dataset =
  n_samples :: int
  n_classes :: int
  targets :: "int list"
  images :: obj

text \<open>The \<^verbatim>\<open>argparse.Namespace\<close> of \<^verbatim>\<open>get_args\<close>, with the attributes \<^verbatim>\<open>main\<close>
  reads, typed as \<^verbatim>\<open>main\<close> uses them.\<close>

record args =
  seed :: int
  data_dir :: "string option"
  dataset_type :: string
  target_size :: "int list"
  split_ratio :: real
  dim_reduction :: int
  reduction_method :: string
  num_examples :: int
  num_test_examples :: int
  gpu :: bool
  no_progress :: bool
  no_plot :: bool
  autoencoder_hidden_dims :: "int list"
  autoencoder_batch_size :: int
  autoencoder_epochs :: int
  autoencoder_learning_rate :: real
  guided_alpha :: real
  guided_beta :: real
  guided_batch_size :: int
  quantum_update_frequency :: int
  geometry :: string
  lattice_spacing :: real
  rabi_freq :: real
  evolution_time :: real
  time_steps :: int
  readout_type :: string
  encoding_scale :: real
  n_shots :: int
  detuning_max :: real
  regularization :: real
  nepochs :: int
  batchsize :: int
  learning_rate :: real

text \<open>The values that cross a call, and a call as Python writes it: the positional
  arguments in order, then the keyword arguments.\<close>

datatype pyval =
    PNone
  | PBool bool
  | PInt int
  | PFloat real
  | PStr string
  | PInts "int list"
  | PFloats "real list"
  | PArray matrix
  | PObj obj
  | PData dataset
  | PArgs args
  | PTuple "pyval list"
  | PDict "(string \<times> pyval) list"

record call =
  pos :: "pyval list"
  kw :: "(string \<times> pyval) list"

text \<open>How Python binds a call's arguments to the parameter \<open>name\<close> that stands at
  position \<open>i\<close> of the callee's parameter list: the positional argument at \<open>i\<close> when
  there is one, the keyword argument of that name otherwise.\<close>

definition argument :: "string \<Rightarrow> nat \<Rightarrow> call \<Rightarrow> pyval option" where
  "argument name i c = (if i < length (pos c) then Some (pos c ! i) else map_of (kw c) name)"

text \<open>What the program does to the world, in order: a call of a collaborator's
  function and how it ended, with the exception it raised or the value it returned;
  the same for a call of a method on an object; a line printed.\<close>

datatype event =
    Call string call "error + pyval"
  | Method obj string call "error + pyval"
  | Print "msg_part list"

type_synonym train_result = "real list \<times> real list \<times> real list \<times> obj"

text \<open>A collaborator's function: from the call and the world to what it raised or
  returned, and the world as it left it.\<close>

type_synonym ('w, 'a) callee = "call \<Rightarrow> 'w \<Rightarrow> (error + 'a) \<times> 'w"

record 'w env =
  module_dir :: string
  path_exists :: "string \<Rightarrow> 'w \<Rightarrow> bool"
  cuda_is_available :: "'w \<Rightarrow> bool"
  get_args :: "('w, args) callee"
  random_seed :: "('w, unit) callee"
  np_random_seed :: "('w, unit) callee"
  torch_manual_seed :: "('w, unit) callee"
  load_dataset :: "('w, dataset \<times> dataset) callee"
  apply_pca :: "('w, matrix \<times> obj \<times> real) callee"
  apply_pca_to_test_data :: "('w, matrix) callee"
  apply_autoencoder :: "('w, matrix \<times> obj \<times> real) callee"
  apply_autoencoder_to_test_data :: "('w, matrix) callee"
  apply_guided_autoencoder :: "('w, matrix \<times> obj \<times> real) callee"
  apply_guided_autoencoder_to_test_data :: "('w, matrix) callee"
  one_hot_encode :: "('w, matrix \<times> obj) callee"
  scale_to_detuning_range :: "('w, matrix) callee"
  DetuningLayer :: "('w, obj) callee"
  apply_layer :: "obj \<Rightarrow> ('w, matrix) callee"
  train :: "('w, train_result) callee"
  print_results :: "('w, unit) callee"
  plot_training_results :: "('w, unit) callee"

text \<open>A statement runs in a state, the world and the events so far, and either
  raises or yields a value.\<close>

type_synonym 'w state = "'w \<times> event list"

type_synonym ('w, 'a) prog = "'w state \<Rightarrow> (error + 'a) \<times> 'w state"

definition ret :: "'a \<Rightarrow> ('w, 'a) prog" where
  "ret x s = (Inr x, s)"

definition raise :: "error \<Rightarrow> ('w, 'a) prog" where
  "raise e s = (Inl e, s)"

definition andthen :: "('w, 'a) prog \<Rightarrow> ('a \<Rightarrow> ('w, 'b) prog) \<Rightarrow> ('w, 'b) prog" where
  "andthen m f s = (case m s of (Inl e, s') \<Rightarrow> (Inl e, s') | (Inr x, s') \<Rightarrow> f x s')"

definition py_print :: "msg_part list \<Rightarrow> ('w, unit) prog" where
  "py_print parts s = (Inr (), (fst s, snd s @ [Print parts]))"

text \<open>A call of a collaborator's function \<open>f\<close>, known to the program as \<open>name\<close>:
  the world becomes what \<open>f\<close> made of it, the call is recorded with the way it
  ended, and an exception \<open>f\<close> raised is raised on in the program. \<open>as_value\<close> shows
  the result as a value for the record.\<close>

definition ext :: "string \<Rightarrow> ('w, 'a) callee \<Rightarrow> ('a \<Rightarrow> pyval) \<Rightarrow> call \<Rightarrow> ('w, 'a) prog" where
  "ext name f as_value c s =
     (case f c (fst s) of
        (r, w') \<Rightarrow> (r, (w', snd s @ [Call name c (map_sum id as_value r)])))"

text \<open>The same for a method \<open>f\<close> called on the object \<open>self\<close>.\<close>

definition call_method ::
  "obj \<Rightarrow> string \<Rightarrow> (obj \<Rightarrow> ('w, 'a) callee) \<Rightarrow> ('a \<Rightarrow> pyval) \<Rightarrow> call \<Rightarrow> ('w, 'a) prog" where
  "call_method self name f as_value c s =
     (case f self c (fst s) of
        (r, w') \<Rightarrow> (r, (w', snd s @ [Method self name c (map_sum id as_value r)])))"

definition observe :: "('w \<Rightarrow> 'a) \<Rightarrow> ('w, 'a) prog" where
  "observe f s = (Inr (f (fst s)), s)"

text \<open>Results as values, for the record of events.\<close>

definition reduction_value :: "matrix \<times> obj \<times> real \<Rightarrow> pyval" where
  "reduction_value r = (case r of (x, model, spectral) \<Rightarrow> PTuple [PArray x, PObj model, PFloat spectral])"

definition train_value :: "train_result \<Rightarrow> pyval" where
  "train_value r =
     (case r of (loss, accs_train, accs_test, model) \<Rightarrow>
        PTuple [PFloats loss, PFloats accs_train, PFloats accs_test, PObj model])"

definition results_value :: "(string \<times> train_result) list \<Rightarrow> pyval" where
  "results_value results = PDict (map (\<lambda>(k, v). (k, train_value v)) results)"

section \<open>models.py: QRCModel\<close>

text \<open>
  The \<^verbatim>\<open>classifier\<close> attribute holds either an \<^verbatim>\<open>nn.Module\<close> instance or, after
  line 133 with \<^verbatim>\<open>classifier=None\<close>, the class \<^verbatim>\<open>LinearClassifier\<close> itself.
\<close>

datatype classifier_attr = Instance obj | LinearClassifier_class

record QRCModel =
  quantum_layer :: obj
  classifier :: classifier_attr

definition QRCModel_init :: "obj \<Rightarrow> obj option \<Rightarrow> QRCModel" where
  "QRCModel_init quantum_layer' classifier' =
     \<lparr>quantum_layer = quantum_layer',
      classifier = (case classifier' of Some c \<Rightarrow> Instance c | None \<Rightarrow> LinearClassifier_class)\<rparr>"

text \<open>\<^verbatim>\<open>QRCModel.fit\<close>, lines 159 to 169. \<open>kwargs\<close> goes to \<^verbatim>\<open>train\<close> only.\<close>

definition QRCModel_fit ::
  "'w env \<Rightarrow> QRCModel \<Rightarrow> matrix \<Rightarrow> pyval \<Rightarrow> matrix \<Rightarrow> pyval \<Rightarrow> (string \<times> pyval) list \<Rightarrow>
     ('w, train_result) prog" where
  "QRCModel_fit env self x_train y_train x_test y_test kwargs =
     andthen (py_print [Txt ''Computing quantum embeddings for training data...'']) (\<lambda>_.
     andthen (call_method (quantum_layer self) ''apply_layer'' (apply_layer env) PArray
                \<lparr>pos = [PArray x_train], kw = []\<rparr>) (\<lambda>train_embeddings.
     andthen (py_print [Txt ''Computing quantum embeddings for test data...'']) (\<lambda>_.
     andthen (call_method (quantum_layer self) ''apply_layer'' (apply_layer env) PArray
                \<lparr>pos = [PArray x_test], kw = []\<rparr>) (\<lambda>test_embeddings.
     ext ''train'' (train env) train_value
       \<lparr>pos = [PArray train_embeddings, y_train, PArray test_embeddings, y_test],
        kw = kwargs\<rparr>))))"

section \<open>main.py\<close>

subsection \<open>Library functions main uses\<close>

text \<open>\<^verbatim>\<open>os.path.join\<close> on POSIX: a component that starts with a slash replaces what
  came before it; otherwise it is appended, after a slash unless the path so far is
  empty or ends with one.\<close>

definition path_join2 :: "string \<Rightarrow> string \<Rightarrow> string" where
  "path_join2 path b =
     (if b \<noteq> [] \<and> hd b = CHR ''/'' then b
      else if path = [] \<or> last path = CHR ''/'' then path @ b
      else path @ ''/'' @ b)"

definition os_path_join :: "string \<Rightarrow> string list \<Rightarrow> string" where
  "os_path_join a ps = foldl path_join2 a ps"

text \<open>The slice \<^verbatim>\<open>xs[:n]\<close>: the first \<open>n\<close> elements, and for a negative \<open>n\<close> all but
  the last \<open>-n\<close>.\<close>

definition slice_to :: "int \<Rightarrow> 'a list \<Rightarrow> 'a list" where
  "slice_to n xs = (if 0 \<le> n then take (nat n) xs else take (length xs - nat (- n)) xs)"

text \<open>\<^verbatim>\<open>ndarray.min()\<close> and \<^verbatim>\<open>ndarray.max()\<close> over all entries; numpy raises
  ValueError on an array without entries.\<close>

definition zero_size :: "string \<Rightarrow> error" where
  "zero_size what =
     Exc ValueError [Txt ''zero-size array to reduction operation '', Txt what,
                     Txt '' which has no identity'']"

definition np_min :: "matrix \<Rightarrow> ('w, real) prog" where
  "np_min x = (if concat x = [] then raise (zero_size ''minimum'') else ret (Min (set (concat x))))"

definition np_max :: "matrix \<Rightarrow> ('w, real) prog" where
  "np_max x = (if concat x = [] then raise (zero_size ''maximum'') else ret (Max (set (concat x))))"

text \<open>An assignment \<^verbatim>\<open>d[k] = v\<close> to a dictionary.\<close>

definition dict_set :: "(string \<times> 'v) list \<Rightarrow> string \<Rightarrow> 'v \<Rightarrow> (string \<times> 'v) list" where
  "dict_set d k v =
     (if k \<in> fst ` set d then map (\<lambda>(k', v'). if k' = k then (k', v) else (k', v')) d
      else d @ [(k, v)])"

text \<open>The banners main prints between its stages: the title lines between two
  rules (the blank lines and the indentation of the source's literal are left out).\<close>

definition banner :: "string list \<Rightarrow> msg_part list" where
  "banner title =
     Txt ''========================================='' # map Txt title @
     [Txt ''========================================='']"

subsection \<open>The stages of main\<close>

text \<open>Lines 50 to 52.\<close>

definition seed_generators :: "'w env \<Rightarrow> args \<Rightarrow> ('w, unit) prog" where
  "seed_generators env a =
     andthen (ext ''random.seed'' (random_seed env) (\<lambda>_. PNone) \<lparr>pos = [PInt (seed a)], kw = []\<rparr>) (\<lambda>_.
     andthen (ext ''np.random.seed'' (np_random_seed env) (\<lambda>_. PNone) \<lparr>pos = [PInt (seed a)], kw = []\<rparr>) (\<lambda>_.
     ext ''torch.manual_seed'' (torch_manual_seed env) (\<lambda>_. PNone) \<lparr>pos = [PInt (seed a)], kw = []\<rparr>))"

text \<open>Lines 64 to 90.\<close>

definition DATA_DIR :: "'w env \<Rightarrow> args \<Rightarrow> string" where
  "DATA_DIR env a =
     (case data_dir a of
        Some d \<Rightarrow> if d \<noteq> [] then d else os_path_join (module_dir env) [''..'', ''data'', ''datasets'']
      | None \<Rightarrow> os_path_join (module_dir env) [''..'', ''data'', ''datasets''])"

definition datasets_value :: "dataset \<times> dataset \<Rightarrow> pyval" where
  "datasets_value r = (case r of (data_train, data_test) \<Rightarrow> PTuple [PData data_train, PData data_test])"

definition load_data :: "'w env \<Rightarrow> args \<Rightarrow> ('w, dataset \<times> dataset) prog" where
  "load_data env a =
     andthen
       (if dataset_type a = ''mnist'' then
          ext ''load_dataset'' (load_dataset env) datasets_value
            \<lparr>pos = [PStr ''mnist''],
             kw = [(''data_dir'', PStr (DATA_DIR env a)),
                   (''target_size'', PInts (target_size a))]\<rparr>
        else
          andthen (observe (path_exists env (os_path_join (DATA_DIR env a) [dataset_type a]))) (\<lambda>exists.
          if \<not> exists then
            raise (Exc ValueError [Txt ''Dataset directory does not exist: '',
                                   Txt (os_path_join (DATA_DIR env a) [dataset_type a])])
          else
            ext ''load_dataset'' (load_dataset env) datasets_value
              \<lparr>pos = [PStr ''image_folder''],
               kw = [(''data_dir'', PStr (os_path_join (DATA_DIR env a) [dataset_type a])),
                     (''target_size'', PInts (target_size a)),
                     (''split_ratio'', PFloat (split_ratio a))]\<rparr>))
       (\<lambda>(data_train, data_test).
     andthen (py_print [Txt ''Dataset loaded: '', Txt (dataset_type a)]) (\<lambda>_.
     andthen (py_print [Txt ''Number of training samples: '', Num (n_samples data_train)]) (\<lambda>_.
     andthen (py_print [Txt ''Number of test samples: '', Num (n_samples data_test)]) (\<lambda>_.
     andthen (py_print [Txt ''Number of classes: '', Num (n_classes data_train)]) (\<lambda>_.
     ret (data_train, data_test))))))"

text \<open>Lines 128 to 130, and again 165 to 167: the device.\<close>

definition choose_device :: "'w env \<Rightarrow> args \<Rightarrow> ('w, string) prog" where
  "choose_device env a =
     andthen (if gpu a then observe (cuda_is_available env) else ret False) (\<lambda>use_cuda.
     andthen (if gpu a then observe (\<lambda>w. \<not> cuda_is_available env w) else ret False) (\<lambda>missing.
     andthen (if missing
              then py_print [Txt ''Warning: GPU requested but not available. Using CPU instead.'']
              else ret ()) (\<lambda>_.
     ret (if use_cuda then ''cuda'' else ''cpu''))))"

text \<open>The keyword arguments both constructions of the layer share, lines 174 to
  181 and 264 to 271.\<close>

definition layer_kwargs :: "args \<Rightarrow> (string \<times> pyval) list" where
  "layer_kwargs a =
     [(''geometry'', PStr (geometry a)),
      (''n_atoms'', PInt (dim_reduction a)),
      (''lattice_spacing'', PFloat (lattice_spacing a)),
      (''rabi_freq'', PFloat (rabi_freq a)),
      (''t_end'', PFloat (evolution_time a)),
      (''n_steps'', PInt (time_steps a)),
      (''readout_type'', PStr (readout_type a)),
      (''encoding_scale'', PFloat (encoding_scale a))]"

text \<open>Lines 108 to 124.\<close>

definition reduce_pca ::
  "'w env \<Rightarrow> args \<Rightarrow> dataset \<Rightarrow> dataset \<Rightarrow> ('w, matrix \<times> obj \<times> real \<times> matrix \<times> obj option) prog" where
  "reduce_pca env a data_train data_test =
     andthen (py_print [Txt ''Using PCA for feature reduction...'']) (\<lambda>_.
     andthen (ext ''apply_pca'' (apply_pca env) reduction_value
                \<lparr>pos = [],
                 kw = [(''data'', PData data_train),
                       (''dim_pca'', PInt (dim_reduction a)),
                       (''num_examples'', PInt (num_examples a))]\<rparr>) (\<lambda>(xs_raw, reduction_model, spectral).
     andthen (py_print [Txt ''Applying PCA to test data...'']) (\<lambda>_.
     andthen (ext ''apply_pca_to_test_data'' (apply_pca_to_test_data env) PArray
                \<lparr>pos = [],
                 kw = [(''data'', PData data_test),
                       (''pca_model'', PObj reduction_model),
                       (''dim_pca'', PInt (dim_reduction a)),
                       (''num_examples'', PInt (num_test_examples a))]\<rparr>) (\<lambda>test_features_raw.
     ret (xs_raw, reduction_model, spectral, test_features_raw, None)))))"

text \<open>Lines 126 to 161.\<close>

definition reduce_autoencoder ::
  "'w env \<Rightarrow> args \<Rightarrow> dataset \<Rightarrow> dataset \<Rightarrow> ('w, matrix \<times> obj \<times> real \<times> matrix \<times> obj option) prog" where
  "reduce_autoencoder env a data_train data_test =
     andthen (choose_device env a) (\<lambda>device.
     andthen (py_print [Txt ''Using autoencoder for feature reduction (device: '', Txt device,
                        Txt '')...'']) (\<lambda>_.
     andthen (ext ''apply_autoencoder'' (apply_autoencoder env) reduction_value
                \<lparr>pos = [],
                 kw = [(''data'', PData data_train),
                       (''encoding_dim'', PInt (dim_reduction a)),
                       (''num_examples'', PInt (num_examples a)),
                       (''hidden_dims'', PInts (autoencoder_hidden_dims a)),
                       (''batch_size'', PInt (autoencoder_batch_size a)),
                       (''epochs'', PInt (autoencoder_epochs a)),
                       (''learning_rate'', PFloat (autoencoder_learning_rate a)),
                       (''device'', PStr device),
                       (''verbose'', PBool (\<not> no_progress a)),
                       (''use_batch_norm'', PBool True),
                       (''dropout'', PFloat (1 / 10)),
                       (''weight_decay'', PFloat (1 / 100000))]\<rparr>) (\<lambda>(xs_raw, reduction_model, spectral).
     andthen (py_print [Txt ''Encoded data spectral range: '', Flt spectral]) (\<lambda>_.
     andthen (py_print [Txt ''Applying autoencoder to test data...'']) (\<lambda>_.
     andthen (ext ''apply_autoencoder_to_test_data'' (apply_autoencoder_to_test_data env) PArray
                \<lparr>pos = [PData data_test, PObj reduction_model, PInt (num_test_examples a)],
                 kw = [(''device'', PStr device),
                       (''verbose'', PBool (\<not> no_progress a))]\<rparr>) (\<lambda>test_features_raw.
     ret (xs_raw, reduction_model, spectral, test_features_raw, None)))))))"

text \<open>Lines 163 to 217. The layer is built here, with \<^verbatim>\<open>print_params=False\<close>, and
  handed to \<^verbatim>\<open>apply_guided_autoencoder\<close>.\<close>

definition reduce_guided_autoencoder ::
  "'w env \<Rightarrow> args \<Rightarrow> dataset \<Rightarrow> dataset \<Rightarrow> ('w, matrix \<times> obj \<times> real \<times> matrix \<times> obj option) prog" where
  "reduce_guided_autoencoder env a data_train data_test =
     andthen (choose_device env a) (\<lambda>device.
     andthen (py_print [Txt ''Using quantum guided autoencoder for feature reduction (device: '',
                        Txt device, Txt '')...'']) (\<lambda>_.
     andthen (py_print [Txt ''Creating quantum layer for guided autoencoder training...'']) (\<lambda>_.
     andthen (ext ''DetuningLayer'' (DetuningLayer env) PObj
                \<lparr>pos = [], kw = layer_kwargs a @ [(''print_params'', PBool False)]\<rparr>) (\<lambda>quantum_layer'.
     andthen (ext ''apply_guided_autoencoder'' (apply_guided_autoencoder env) reduction_value
                \<lparr>pos = [PData data_train],
                 kw = [(''quantum_layer'', PObj quantum_layer'),
                       (''encoding_dim'', PInt (dim_reduction a)),
                       (''num_examples'', PInt (num_examples a)),
                       (''hidden_dims'', PInts (autoencoder_hidden_dims a)),
                       (''alpha'', PFloat (guided_alpha a)),
                       (''beta'', PFloat (guided_beta a)),
                       (''batch_size'', PInt (guided_batch_size a)),
                       (''epochs'', PInt (autoencoder_epochs a)),
                       (''learning_rate'', PFloat (autoencoder_learning_rate a)),
                       (''quantum_update_frequency'', PInt (quantum_update_frequency a)),
                       (''n_shots'', PInt (n_shots a)),
                       (''device'', PStr device),
                       (''verbose'', PBool (\<not> no_progress a)),
                       (''use_batch_norm'', PBool True),
                       (''dropout'', PFloat (1 / 10)),
                       (''weight_decay'', PFloat (1 / 100000))]\<rparr>) (\<lambda>(xs_raw, reduction_model, spectral).
     andthen (py_print [Txt ''Encoded data spectral range: '', Flt spectral]) (\<lambda>_.
     andthen (py_print [Txt ''Applying guided autoencoder to test data...'']) (\<lambda>_.
     andthen (ext ''apply_guided_autoencoder_to_test_data''
                (apply_guided_autoencoder_to_test_data env) PArray
                \<lparr>pos = [PData data_test, PObj reduction_model, PInt (num_test_examples a)],
                 kw = [(''device'', PStr device),
                       (''verbose'', PBool (\<not> no_progress a))]\<rparr>) (\<lambda>test_features_raw.
     ret (xs_raw, reduction_model, spectral, test_features_raw, Some quantum_layer')))))))))"

text \<open>Lines 105 to 220: the method is chosen by its lower-case name. The last
  component of the result is the local variable \<^verbatim>\<open>quantum_layer\<close>, bound in the
  guided branch only.\<close>

definition feature_reduction ::
  "'w env \<Rightarrow> args \<Rightarrow> dataset \<Rightarrow> dataset \<Rightarrow> ('w, matrix \<times> obj \<times> real \<times> matrix \<times> obj option) prog" where
  "feature_reduction env a data_train data_test =
     (if py_lower (reduction_method a) = ''pca'' then reduce_pca env a data_train data_test
      else if py_lower (reduction_method a) = ''autoencoder''
      then reduce_autoencoder env a data_train data_test
      else if py_lower (reduction_method a) = ''guided_autoencoder''
      then reduce_guided_autoencoder env a data_train data_test
      else raise (Exc ValueError [Txt ''Unknown reduction method: '',
                                  Txt (py_lower (reduction_method a))]))"

text \<open>Lines 250 to 257: both feature matrices are scaled with the spectral value of
  the training data and \<^verbatim>\<open>args.detuning_max\<close>; the ranges are printed.\<close>

definition scale_features ::
  "'w env \<Rightarrow> args \<Rightarrow> matrix \<Rightarrow> real \<Rightarrow> matrix \<Rightarrow> ('w, matrix \<times> matrix) prog" where
  "scale_features env a xs_raw spectral test_features_raw =
     andthen (py_print [Txt ''Scaling features with spectral value: '', Flt spectral]) (\<lambda>_.
     andthen (ext ''scale_to_detuning_range'' (scale_to_detuning_range env) PArray
                \<lparr>pos = [PArray xs_raw, PFloat spectral, PFloat (detuning_max a)], kw = []\<rparr>) (\<lambda>xs.
     andthen (np_min xs) (\<lambda>lo.
     andthen (np_max xs) (\<lambda>hi.
     andthen (py_print [Txt ''Scaled feature range: '', Flt lo, Txt '' to '', Flt hi]) (\<lambda>_.
     andthen (ext ''scale_to_detuning_range'' (scale_to_detuning_range env) PArray
                \<lparr>pos = [PArray test_features_raw, PFloat spectral, PFloat (detuning_max a)],
                 kw = []\<rparr>) (\<lambda>test_features.
     andthen (np_min test_features) (\<lambda>lo'.
     andthen (np_max test_features) (\<lambda>hi'.
     andthen (py_print [Txt ''Scaled test feature range: '', Flt lo', Txt '' to '', Flt hi']) (\<lambda>_.
     ret (xs, test_features))))))))))"

text \<open>Lines 259 to 272: the layer of the guided branch is reused, any other branch
  builds the layer now.\<close>

definition create_quantum_layer :: "'w env \<Rightarrow> args \<Rightarrow> obj option \<Rightarrow> ('w, obj) prog" where
  "create_quantum_layer env a local_quantum_layer =
     (case local_quantum_layer of
        Some l \<Rightarrow>
          if py_lower (reduction_method a) = ''guided_autoencoder''
          then andthen (py_print [Txt ''Reusing quantum layer from guided autoencoder...'']) (\<lambda>_. ret l)
          else ext ''DetuningLayer'' (DetuningLayer env) PObj \<lparr>pos = [], kw = layer_kwargs a\<rparr>
      | None \<Rightarrow> ext ''DetuningLayer'' (DetuningLayer env) PObj \<lparr>pos = [], kw = layer_kwargs a\<rparr>)"

text \<open>Lines 282 to 294.\<close>

definition run_quantum_layer ::
  "'w env \<Rightarrow> args \<Rightarrow> obj \<Rightarrow> matrix \<Rightarrow> matrix \<Rightarrow> ('w, matrix \<times> matrix) prog" where
  "run_quantum_layer env a quantum_layer' xs test_features =
     andthen (py_print [Txt ''Computing quantum embeddings for training data...'']) (\<lambda>_.
     andthen (call_method quantum_layer' ''apply_layer'' (apply_layer env) PArray
                \<lparr>pos = [],
                 kw = [(''x'', PArray xs),
                       (''n_shots'', PInt (n_shots a)),
                       (''show_progress'', PBool (\<not> no_progress a))]\<rparr>) (\<lambda>embeddings.
     andthen (py_print [Txt ''Computing quantum embeddings for test data...'']) (\<lambda>_.
     andthen (call_method quantum_layer' ''apply_layer'' (apply_layer env) PArray
                \<lparr>pos = [PArray test_features],
                 kw = [(''n_shots'', PInt (n_shots a)),
                       (''show_progress'', PBool (\<not> no_progress a))]\<rparr>) (\<lambda>test_embeddings.
     ret (embeddings, test_embeddings)))))"

text \<open>Lines 306 to 361: the three trainings and the dictionary of their results.\<close>

definition train_kwargs :: "args \<Rightarrow> bool \<Rightarrow> (string \<times> pyval) list" where
  "train_kwargs a nonlinear =
     [(''regularization'', PFloat (regularization a)),
      (''nepochs'', PInt (nepochs a)),
      (''batchsize'', PInt (batchsize a)),
      (''learning_rate'', PFloat (learning_rate a)),
      (''verbose'', PBool (\<not> no_progress a)),
      (''nonlinear'', PBool nonlinear)]"

definition train_models ::
  "'w env \<Rightarrow> args \<Rightarrow> matrix \<Rightarrow> matrix \<Rightarrow> matrix \<Rightarrow> int list \<Rightarrow> matrix \<Rightarrow> matrix \<Rightarrow>
     ('w, (string \<times> train_result) list) prog" where
  "train_models env a xs ys test_features test_targets embeddings test_embeddings =
     andthen (py_print (banner [''TRAINING LINEAR CLASSIFIER ON'', ''REDUCED FEATURES''])) (\<lambda>_.
     andthen (ext ''train'' (train env) train_value
                \<lparr>pos = [],
                 kw = [(''x_train'', PArray xs), (''y_train'', PArray ys),
                       (''x_test'', PArray test_features), (''y_test'', PInts test_targets)]
                      @ train_kwargs a False\<rparr>) (\<lambda>lin.
     andthen (py_print (banner [''TRAINING LINEAR CLASSIFIER ON'', ''QUANTUM EMBEDDINGS''])) (\<lambda>_.
     andthen (ext ''train'' (train env) train_value
                \<lparr>pos = [PArray embeddings, PArray ys, PArray test_embeddings, PInts test_targets],
                 kw = train_kwargs a False\<rparr>) (\<lambda>qrc.
     andthen (py_print (banner [''TRAINING NEURAL NETWORK'', ''ON REDUCED FEATURES''])) (\<lambda>_.
     andthen (ext ''train'' (train env) train_value
                \<lparr>pos = [PArray xs, PArray ys, PArray test_features, PInts test_targets],
                 kw = train_kwargs a True\<rparr>) (\<lambda>nn.
     ret (dict_set
            (dict_set
               (dict_set [] (py_upper (py_lower (reduction_method a)) @ ''+linear'') lin)
               ''QRC'' qrc)
            (py_upper (py_lower (reduction_method a)) @ ''+NN'') nn)))))))"

text \<open>Lines 365 to 385.\<close>

definition report ::
  "'w env \<Rightarrow> args \<Rightarrow> dataset \<Rightarrow> dataset \<Rightarrow> (string \<times> train_result) list \<Rightarrow>
     ('w, (string \<times> train_result) list) prog" where
  "report env a data_train data_test results =
     andthen (py_print
                [Txt ''=========================================='',
                 Txt ''Dataset: '', Txt (dataset_type a),
                 Txt ''Reduction Method: '', Txt (py_upper (py_lower (reduction_method a))),
                 Txt ''Number of training samples: '', Num (n_samples data_train),
                 Txt ''Number of test samples: '', Num (n_samples data_test),
                 Txt ''Number of classes: '', Num (n_classes data_train),
                 Txt ''Number of features: '', Num (dim_reduction a),
                 Txt ''Number of epochs: '', Num (nepochs a),
                 Txt ''Batch size: '', Num (batchsize a),
                 Txt ''Learning rate: '', Flt (learning_rate a),
                 Txt ''Regularization: '', Flt (regularization a),
                 Txt ''Number of shots: '', Num (n_shots a),
                 Txt ''==========================================='']) (\<lambda>_.
     andthen (ext ''print_results'' (print_results env) (\<lambda>_. PNone)
                \<lparr>pos = [results_value results], kw = []\<rparr>) (\<lambda>_.
     andthen (if \<not> no_plot a
              then ext ''plot_training_results'' (plot_training_results env) (\<lambda>_. PNone)
                     \<lparr>pos = [results_value results], kw = []\<rparr>
              else ret ()) (\<lambda>_.
     ret results)))"

subsection \<open>main\<close>

text \<open>Lines 259 to 385: the layer is made ready and applied to the training and
  the test features, the three models are trained, the results are reported.\<close>

definition embed_and_train ::
  "'w env \<Rightarrow> args \<Rightarrow> dataset \<Rightarrow> dataset \<Rightarrow> matrix \<Rightarrow> obj option \<Rightarrow> matrix \<Rightarrow> matrix \<Rightarrow>
     ('w, (string \<times> train_result) list) prog" where
  "embed_and_train env a data_train data_test ys_encoded local_quantum_layer xs test_features =
     andthen (create_quantum_layer env a local_quantum_layer) (\<lambda>quantum_layer'.
     andthen (py_print (banner [''RUNNING QUANTUM LAYER''])) (\<lambda>_.
     andthen (run_quantum_layer env a quantum_layer' xs test_features)
       (\<lambda>(embeddings, test_embeddings).
     andthen (train_models env a xs (transpose ys_encoded) test_features
                (slice_to (num_test_examples a) (targets data_test)) embeddings test_embeddings)
       (\<lambda>results.
     report env a data_train data_test results))))"

text \<open>Lines 222 to 257, and then the above: the targets are encoded and the reduced
  features are scaled.\<close>

definition after_reduction ::
  "'w env \<Rightarrow> args \<Rightarrow> dataset \<Rightarrow> dataset \<Rightarrow> matrix \<times> obj \<times> real \<times> matrix \<times> obj option \<Rightarrow>
     ('w, (string \<times> train_result) list) prog" where
  "after_reduction env a data_train data_test reduced =
     (case reduced of
        (xs_raw, reduction_model, spectral, test_features_raw, local_quantum_layer) \<Rightarrow>
     andthen (py_print (banner [''ONE-HOT ENCODING TARGETS''])) (\<lambda>_.
     andthen (ext ''one_hot_encode'' (one_hot_encode env)
                (\<lambda>(ys_encoded, encoder). PTuple [PArray ys_encoded, PObj encoder])
                \<lparr>pos = [PInts (slice_to (num_examples a) (targets data_train)),
                        PInt (n_classes data_train)],
                 kw = []\<rparr>) (\<lambda>(ys_encoded, encoder).
     andthen (py_print (banner [''PREPARING QUANTUM LAYER''])) (\<lambda>_.
     andthen (scale_features env a xs_raw spectral test_features_raw) (\<lambda>(xs, test_features).
     embed_and_train env a data_train data_test ys_encoded local_quantum_layer xs
       test_features)))))"

text \<open>Everything after the arguments are known, lines 49 to 385.\<close>

definition pipeline :: "'w env \<Rightarrow> args \<Rightarrow> ('w, (string \<times> train_result) list) prog" where
  "pipeline env a =
     andthen (seed_generators env a) (\<lambda>_.
     andthen (py_print (banner [''LOADING THE DATASET''])) (\<lambda>_.
     andthen (load_data env a) (\<lambda>(data_train, data_test).
     andthen (py_print (banner [''PERFORMING FEATURE REDUCTION''])) (\<lambda>_.
     andthen (feature_reduction env a data_train data_test) (\<lambda>reduced.
     after_reduction env a data_train data_test reduced)))))"

text \<open>\<^verbatim>\<open>main\<close>, line 30: the arguments are parsed when none are given.\<close>

definition main :: "'w env \<Rightarrow> args option \<Rightarrow> ('w, (string \<times> train_result) list) prog" where
  "main env args' =
     andthen (case args' of
                None \<Rightarrow> ext ''get_args'' (get_args env) PArgs \<lparr>pos = [], kw = []\<rparr>
              | Some a \<Rightarrow> ret a) (\<lambda>a.
     pipeline env a)"

section \<open>Observing a run\<close>

text \<open>A run starts in a world with no events; it ends with an outcome and the
  events in the order they happened.\<close>

definition outcome :: "('w, 'a) prog \<Rightarrow> 'w \<Rightarrow> error + 'a" where
  "outcome m w = fst (m (w, []))"

definition events :: "('w, 'a) prog \<Rightarrow> 'w \<Rightarrow> event list" where
  "events m w = snd (snd (m (w, [])))"

text \<open>The arguments main works with: those it is given, or those \<^verbatim>\<open>get_args\<close>
  returns when it does not raise.\<close>

definition given_args :: "'w env \<Rightarrow> args option \<Rightarrow> 'w \<Rightarrow> error + args" where
  "given_args env args' w =
     (case args' of Some a \<Rightarrow> Inr a | None \<Rightarrow> fst (get_args env \<lparr>pos = [], kw = []\<rparr> w))"

text \<open>The calls of \<^verbatim>\<open>apply_layer\<close> among the events, whether they returned or
  raised: the layer and the arguments.\<close>

fun apply_layer_calls :: "event list \<Rightarrow> (obj \<times> call) list" where
  "apply_layer_calls [] = []"
| "apply_layer_calls (Method l name c r # es) =
     (if name = ''apply_layer'' then (l, c) # apply_layer_calls es else apply_layer_calls es)"
| "apply_layer_calls (Call name c r # es) = apply_layer_calls es"
| "apply_layer_calls (Print parts # es) = apply_layer_calls es"

text \<open>The calls of the collaborators' functions named in \<open>names\<close>: the name, the
  arguments and how the call ended. And the calls of one function.\<close>

fun calls_among :: "string list \<Rightarrow> event list \<Rightarrow> (string \<times> call \<times> (error + pyval)) list" where
  "calls_among names [] = []"
| "calls_among names (Call name c r # es) =
     (if name \<in> set names then (name, c, r) # calls_among names es else calls_among names es)"
| "calls_among names (Method l name c r # es) = calls_among names es"
| "calls_among names (Print parts # es) = calls_among names es"

definition calls_named :: "string \<Rightarrow> event list \<Rightarrow> (call \<times> (error + pyval)) list" where
  "calls_named name es = map snd (calls_among [name] es)"

text \<open>The constructions of a \<^verbatim>\<open>DetuningLayer\<close>: the arguments of every construction
  that was begun, and the arguments and the object of those that returned one.\<close>

definition construction_calls :: "event list \<Rightarrow> call list" where
  "construction_calls es = map fst (calls_named ''DetuningLayer'' es)"

definition built_layer :: "call \<times> (error + pyval) \<Rightarrow> (call \<times> obj) option" where
  "built_layer cr = (case cr of (c, Inr (PObj l)) \<Rightarrow> Some (c, l) | _ \<Rightarrow> None)"

definition constructions :: "event list \<Rightarrow> (call \<times> obj) list" where
  "constructions es = List.map_filter built_layer (calls_named ''DetuningLayer'' es)"

text \<open>The matrix a call of \<^verbatim>\<open>apply_layer\<close> passes for the parameter \<open>x\<close>.\<close>

definition passed_matrix :: "call \<Rightarrow> matrix option" where
  "passed_matrix c = (case argument ''x'' 0 c of Some (PArray m) \<Rightarrow> Some m | _ \<Rightarrow> None)"

definition passed_matrices :: "event list \<Rightarrow> matrix list" where
  "passed_matrices es = List.map_filter (\<lambda>(l, c). passed_matrix c) (apply_layer_calls es)"

text \<open>What a call supplies beyond the three parameters \<open>x\<close>, \<open>n_shots\<close> and
  \<open>show_progress\<close> of \<^verbatim>\<open>apply_layer\<close>: a fourth positional argument or later, or a
  keyword argument of another name.\<close>

definition extra_arguments :: "call \<Rightarrow> pyval list" where
  "extra_arguments c =
     drop 3 (pos c) @
     map snd (filter (\<lambda>(k, v). k \<notin> {''x'', ''n_shots'', ''show_progress''}) (kw c))"

text \<open>A call supplies the whole signature \<^verbatim>\<open>(x: matrix, n_shots: int,
  show_progress: bool)\<close>.\<close>

definition supplies_signature :: "call \<Rightarrow> bool" where
  "supplies_signature c =
     ((case argument ''x'' 0 c of Some (PArray m) \<Rightarrow> True | _ \<Rightarrow> False) \<and>
      (case argument ''n_shots'' 1 c of Some (PInt n) \<Rightarrow> True | _ \<Rightarrow> False) \<and>
      (case argument ''show_progress'' 2 c of Some (PBool b) \<Rightarrow> True | _ \<Rightarrow> False))"

text \<open>The functions of \<^verbatim>\<open>feature_reduction\<close> that reduce the data, and their calls
  in a run.\<close>

definition reducer_names :: "string list" where
  "reducer_names =
     [''apply_pca'', ''apply_pca_to_test_data'',
      ''apply_autoencoder'', ''apply_autoencoder_to_test_data'',
      ''apply_guided_autoencoder'', ''apply_guided_autoencoder_to_test_data'']"

definition reducer_calls :: "event list \<Rightarrow> (string \<times> call \<times> (error + pyval)) list" where
  "reducer_calls es = calls_among reducer_names es"

text \<open>The matrix in a reducer's result: the result itself, or the first component
  of the triple. And the matrices the reducers of a run returned.\<close>

definition reduced_matrix :: "pyval \<Rightarrow> matrix option" where
  "reduced_matrix r =
     (case r of
        PArray m \<Rightarrow> Some m
      | PTuple vs \<Rightarrow> (case vs of PArray m # rest \<Rightarrow> Some m | _ \<Rightarrow> None)
      | _ \<Rightarrow> None)"

definition reduced :: "event list \<Rightarrow> matrix list" where
  "reduced es =
     List.map_filter (\<lambda>(n, c, r). case r of Inr v \<Rightarrow> reduced_matrix v | Inl e \<Rightarrow> None)
       (reducer_calls es)"

text \<open>The datasets \<^verbatim>\<open>load_dataset\<close> returned, the training data before the test
  data as main unpacks them.\<close>

definition loaded :: "event list \<Rightarrow> pyval list" where
  "loaded es =
     concat (map (\<lambda>(c, r). case r of Inr (PTuple vs) \<Rightarrow> vs | _ \<Rightarrow> [])
               (calls_named ''load_dataset'' es))"

text \<open>The calls of \<^verbatim>\<open>scale_to_detuning_range\<close>: what each was given to scale, and
  the matrices that were returned.\<close>

definition scaler_calls :: "event list \<Rightarrow> (call \<times> (error + pyval)) list" where
  "scaler_calls es = calls_named ''scale_to_detuning_range'' es"

definition scaler_inputs :: "event list \<Rightarrow> pyval option list" where
  "scaler_inputs es = map (\<lambda>(c, r). argument ''x'' 0 c) (scaler_calls es)"

definition returned_array :: "error + pyval \<Rightarrow> matrix option" where
  "returned_array r = (case r of Inr (PArray m) \<Rightarrow> Some m | _ \<Rightarrow> None)"

definition scaler_results :: "event list \<Rightarrow> matrix list" where
  "scaler_results es = List.map_filter (\<lambda>(c, r). returned_array r) (scaler_calls es)"

text \<open>The spectral value in a reducer's result, the third component of the triple;
  and the spectral values the reducers of a run returned.\<close>

definition spectral_of :: "error + pyval \<Rightarrow> real option" where
  "spectral_of r =
     (case r of
        Inr (PTuple vs) \<Rightarrow> (case drop 2 vs of [PFloat s] \<Rightarrow> Some s | _ \<Rightarrow> None)
      | _ \<Rightarrow> None)"

definition returned_spectral :: "event list \<Rightarrow> real list" where
  "returned_spectral es = List.map_filter (\<lambda>(n, c, r). spectral_of r) (reducer_calls es)"

text \<open>\<open>xs\<close> is an initial segment of \<open>ys\<close>.\<close>

definition initial_segment :: "'a list \<Rightarrow> 'a list \<Rightarrow> bool" where
  "initial_segment xs ys = (xs = take (length xs) ys)"

text \<open>All entries of a matrix lie within \<open>[-b, b]\<close>.\<close>

definition within_bound :: "real \<Rightarrow> matrix \<Rightarrow> bool" where
  "within_bound b m = list_all (list_all (\<lambda>v. - b \<le> v \<and> v \<le> b)) m"

text \<open>
  The scaling is checked along the events in their order. \<open>scaled_first b seen es\<close>
  holds when every matrix a call of \<^verbatim>\<open>apply_layer\<close> in \<open>es\<close> passes is in \<open>seen\<close> or
  was returned, earlier in \<open>es\<close>, by a call of \<^verbatim>\<open>scale_to_detuning_range\<close> whose
  third argument is \<open>b\<close>.
\<close>

fun scaled_first :: "real \<Rightarrow> matrix list \<Rightarrow> event list \<Rightarrow> bool" where
  "scaled_first b seen [] = True"
| "scaled_first b seen (Call name c r # es) =
     (case returned_array r of
        Some m \<Rightarrow>
          if name = ''scale_to_detuning_range'' \<and> argument ''detuning_max'' 2 c = Some (PFloat b)
          then scaled_first b (m # seen) es
          else scaled_first b seen es
      | None \<Rightarrow> scaled_first b seen es)"
| "scaled_first b seen (Method l name c r # es) =
     (if name = ''apply_layer''
      then (case passed_matrix c of Some m \<Rightarrow> m \<in> set seen \<and> scaled_first b seen es | None \<Rightarrow> False)
      else scaled_first b seen es)"
| "scaled_first b seen (Print parts # es) = scaled_first b seen es"

text \<open>
  The calls with which main seeds the global generators, lines 50 to 52, and what
  it is for a run to begin with given calls: they are made in their order, each
  once the one before has returned, and a call that raises is the last event of the
  run.
\<close>

definition seeding_calls :: "int \<Rightarrow> (string \<times> call) list" where
  "seeding_calls n =
     [(''random.seed'', \<lparr>pos = [PInt n], kw = []\<rparr>),
      (''np.random.seed'', \<lparr>pos = [PInt n], kw = []\<rparr>),
      (''torch.manual_seed'', \<lparr>pos = [PInt n], kw = []\<rparr>)]"

fun begins_with :: "(string \<times> call) list \<Rightarrow> event list \<Rightarrow> bool" where
  "begins_with [] es = True"
| "begins_with (nc # cs) [] = False"
| "begins_with (nc # cs) (Call name c r # es) =
     ((name, c) = nc \<and> (case r of Inr v \<Rightarrow> begins_with cs es | Inl e \<Rightarrow> es = []))"
| "begins_with (nc # cs) (Method l name c r # es) = False"
| "begins_with (nc # cs) (Print parts # es) = False"

text \<open>One layer for all calls: every call of \<^verbatim>\<open>apply_layer\<close> is made on the same
  object, and that object is the one layer the run has built.\<close>

definition one_layer :: "event list \<Rightarrow> bool" where
  "one_layer es =
     (case map fst (apply_layer_calls es) of
        [] \<Rightarrow> True
      | l # ls \<Rightarrow> list_all (\<lambda>l'. l' = l) ls \<and> map snd (constructions es) = [l])"

text \<open>The keywords a construction of the layer may carry in main.\<close>

definition layer_keywords :: "string list" where
  "layer_keywords =
     [''geometry'', ''n_atoms'', ''lattice_spacing'', ''rabi_freq'', ''t_end'', ''n_steps'',
      ''readout_type'', ''encoding_scale'', ''print_params'']"

section \<open>The layer as the specification describes it\<close>

text \<open>
  Modelled from the spec: the class \<^verbatim>\<open>DetuningLayer\<close> (module \<^verbatim>\<open>qrc_layer\<close>) is not
  among the sources, only its callers are. The specification's data model gives a
  layer a configuration fixed at construction, the atom coordinates and the
  interaction matrix, both built once at construction.
\<close>

record LayerConfig =
  geometry_type :: string
  atom_count :: nat
  spacing :: real
  drive_amplitude :: real
  duration :: real
  step_count :: nat
  readout :: string
  scale :: real

record Layer =
  layer_config :: LayerConfig
  atom_array :: "real list list"
  interaction_matrix :: matrix

text \<open>
  Modelled from the spec: the world of the layer, as far as the specification speaks
  of it. The layers that were built, by reference; the source of the randomness the
  measurement draws from; the progress reports made, each the count of samples
  processed so far.
\<close>

record 'g lab =
  built :: "obj \<rightharpoonup> Layer"
  random_source :: 'g
  reported :: "nat list"

text \<open>
  Modelled from the spec: the three numerical stages of one sample (Hamiltonian,
  evolution, measurement; sections 4.3 to 4.5) are a parameter. It reads the layer,
  the sample and the shot count, draws from the random source and returns the
  embedding with the random source as it left it.
\<close>

type_synonym 'g sample_embedding = "Layer \<Rightarrow> real list \<Rightarrow> int \<Rightarrow> 'g \<Rightarrow> real list \<times> 'g"

text \<open>
  Modelled from the spec: the batch of section 4.6. The samples are processed one by
  one, in their order. A sample whose length is not the atom count fails the
  validation of section 4.3, and the failure is fatal for the whole batch. The only
  other effect is the progress report: with the flag set, the count of samples
  processed is reported after each sample. \<open>k\<close> is the count so far.
\<close>

fun embed_samples ::
  "'g sample_embedding \<Rightarrow> Layer \<Rightarrow> int \<Rightarrow> bool \<Rightarrow> nat \<Rightarrow> matrix \<Rightarrow> 'g lab \<Rightarrow>
     (error + matrix) \<times> 'g lab" where
  "embed_samples embed_one layer shots show_progress k [] s = (Inr [], s)"
| "embed_samples embed_one layer shots show_progress k (row # rows) s =
     (if length row \<noteq> atom_count (layer_config layer)
      then (Inl (Exc ValueError [Txt ''sample length is not the atom count'']), s)
      else
        (case embed_one layer row shots (random_source s) of
           (v, g') \<Rightarrow>
             (case embed_samples embed_one layer shots show_progress (Suc k) rows
                     (s\<lparr>random_source := g',
                        reported := reported s @ (if show_progress then [Suc k] else [])\<rparr>) of
                (Inl e, s') \<Rightarrow> (Inl e, s')
              | (Inr vs, s') \<Rightarrow> (Inr (v # vs), s'))))"

text \<open>
  Modelled from the spec: the facade \<^verbatim>\<open>apply_layer\<close> of section 4.6, on the object
  \<open>self\<close>. An object that is no layer has no such method.
\<close>

definition spec_apply_layer ::
  "'g sample_embedding \<Rightarrow> obj \<Rightarrow> matrix \<Rightarrow> int \<Rightarrow> bool \<Rightarrow> 'g lab \<Rightarrow> (error + matrix) \<times> 'g lab" where
  "spec_apply_layer embed_one self x shots show_progress s =
     (case built s self of
        None \<Rightarrow> (Inl (Exc (OtherError ''AttributeError'') [Txt ''apply_layer'']), s)
      | Some layer \<Rightarrow> embed_samples embed_one layer shots show_progress 0 x s)"

text \<open>
  Modelled from the spec: the method as a caller reaches it, with the signature
  \<^verbatim>\<open>apply_layer(x: matrix, n_shots: int, show_progress: bool)\<close> of section 6; the
  progress flag is optional (section 4.6). A call that does not fit the signature is
  a TypeError.
\<close>

definition as_array :: "pyval option \<Rightarrow> matrix option" where
  "as_array v = (case v of Some (PArray m) \<Rightarrow> Some m | _ \<Rightarrow> None)"

definition as_int :: "pyval option \<Rightarrow> int option" where
  "as_int v = (case v of Some (PInt n) \<Rightarrow> Some n | _ \<Rightarrow> None)"

definition as_flag :: "pyval option \<Rightarrow> bool option" where
  "as_flag v = (case v of None \<Rightarrow> Some False | Some (PBool p) \<Rightarrow> Some p | _ \<Rightarrow> None)"

definition signature_mismatch :: error where
  "signature_mismatch = Exc TypeError [Txt ''apply_layer(x, n_shots, show_progress)'']"

definition spec_layer_method :: "'g sample_embedding \<Rightarrow> obj \<Rightarrow> ('g lab, matrix) callee" where
  "spec_layer_method embed_one self c s =
     (case (as_array (argument ''x'' 0 c), as_int (argument ''n_shots'' 1 c),
            as_flag (argument ''show_progress'' 2 c)) of
        (Some x, Some shots, Some show_progress) \<Rightarrow>
          if extra_arguments c = [] then spec_apply_layer embed_one self x shots show_progress s
          else (Inl signature_mismatch, s)
      | _ \<Rightarrow> (Inl signature_mismatch, s))"

section \<open>A concrete environment\<close>

text \<open>
  Collaborators to run the program with, in the world of the specification's layer.
  The reducers return fixed matrices of two columns. The scaler divides by the
  spectral value and multiplies by the bound. A construction stores a layer of two
  atoms as object 10. \<^verbatim>\<open>apply_layer\<close> is the facade of the specification, where the
  embedding of a sample is the sample itself and one draw is made for it.
  \<^verbatim>\<open>np.random.seed\<close> accepts an integer from 0 to \<open>2\<^sup>3\<^sup>2 - 1\<close> and raises ValueError on
  any other, as numpy documents it.
\<close>

definition sample_train :: dataset where
  "sample_train = \<lparr>n_samples = 2, n_classes = 2, targets = [0, 1], images = 0\<rparr>"

definition sample_test :: dataset where
  "sample_test = \<lparr>n_samples = 1, n_classes = 2, targets = [1], images = 1\<rparr>"

definition sample_args :: args where
  "sample_args =
     \<lparr>seed = 42, data_dir = None, dataset_type = ''mnist'', target_size = [28, 28],
      split_ratio = 4 / 5, dim_reduction = 2, reduction_method = ''PCA'', num_examples = 2,
      num_test_examples = 1, gpu = False, no_progress = True, no_plot = True,
      autoencoder_hidden_dims = [8], autoencoder_batch_size = 2, autoencoder_epochs = 1,
      autoencoder_learning_rate = 1 / 1000, guided_alpha = 1 / 2, guided_beta = 1 / 2,
      guided_batch_size = 2, quantum_update_frequency = 1, geometry = ''chain'',
      lattice_spacing = 10, rabi_freq = 2, evolution_time = 4, time_steps = 16,
      readout_type = ''ZZ'', encoding_scale = 9, n_shots = 1000, detuning_max = 6,
      regularization = 0, nepochs = 1, batchsize = 2, learning_rate = 1 / 100\<rparr>"

definition sample_scale :: "call \<Rightarrow> matrix" where
  "sample_scale c =
     (case pos c of
        [PArray x, PFloat spectral, PFloat b] \<Rightarrow> map (map (\<lambda>v. v / spectral * b)) x
      | _ \<Rightarrow> [])"

definition numpy_seed :: "('w, unit) callee" where
  "numpy_seed c w =
     (case as_int (argument ''seed'' 0 c) of
        Some n \<Rightarrow>
          if 0 \<le> n \<and> n < 2 ^ 32 then (Inr (), w)
          else (Inl (Exc ValueError [Txt ''Seed must be between 0 and 2**32 - 1'']), w)
      | None \<Rightarrow> (Inl (Exc TypeError [Txt ''Cannot cast scalar to seed'']), w))"

definition sample_layer :: Layer where
  "sample_layer =
     \<lparr>layer_config = \<lparr>geometry_type = ''chain'', atom_count = 2, spacing = 10,
                       drive_amplitude = 2, duration = 4, step_count = 16, readout = ''ZZ'',
                       scale = 9\<rparr>,
      atom_array = [[0, 0], [10, 0]],
      interaction_matrix = [[0, 1], [1, 0]]\<rparr>"

definition sample_embed :: "nat sample_embedding" where
  "sample_embed layer row shots g = (row, Suc g)"

definition sample_world :: "nat lab" where
  "sample_world = \<lparr>built = Map.empty, random_source = 0, reported = []\<rparr>"

definition sample_env :: "nat lab env" where
  "sample_env =
     \<lparr>module_dir = ''/repo/src'',
      path_exists = (\<lambda>p w. True),
      cuda_is_available = (\<lambda>w. False),
      get_args = (\<lambda>c w. (Inr sample_args, w)),
      random_seed = (\<lambda>c w. (Inr (), w)),
      np_random_seed = numpy_seed,
      torch_manual_seed = (\<lambda>c w. (Inr (), w)),
      load_dataset = (\<lambda>c w. (Inr (sample_train, sample_test), w)),
      apply_pca = (\<lambda>c w. (Inr ([[3, - 4], [1, 2]], 1, 4), w)),
      apply_pca_to_test_data = (\<lambda>c w. (Inr [[2, 0]], w)),
      apply_autoencoder = (\<lambda>c w. (Inr ([[3, - 4], [1, 2]], 1, 4), w)),
      apply_autoencoder_to_test_data = (\<lambda>c w. (Inr [[2, 0]], w)),
      apply_guided_autoencoder = (\<lambda>c w. (Inr ([[3, - 4], [1, 2]], 1, 4), w)),
      apply_guided_autoencoder_to_test_data = (\<lambda>c w. (Inr [[2, 0]], w)),
      one_hot_encode = (\<lambda>c w. (Inr ([[1, 0], [0, 1]], 2), w)),
      scale_to_detuning_range = (\<lambda>c w. (Inr (sample_scale c), w)),
      DetuningLayer = (\<lambda>c w. (Inr 10, w\<lparr>built := (built w)(10 \<mapsto> sample_layer)\<rparr>)),
      apply_layer = spec_layer_method sample_embed,
      train = (\<lambda>c w. (Inr ([], [], [], 3), w)),
      print_results = (\<lambda>c w. (Inr (), w)),
      plot_training_results = (\<lambda>c w. (Inr (), w))\<rparr>"

section \<open>The events main leaves\<close>

text \<open>The events that concern the layer and its input: the loading of the data, the
  reducers, the scaler, the construction of the layer and \<^verbatim>\<open>apply_layer\<close>.\<close>

definition quantum_names :: "string list" where
  "quantum_names = ''load_dataset'' # ''DetuningLayer'' # ''scale_to_detuning_range'' # reducer_names"

definition is_quantum :: "event \<Rightarrow> bool" where
  "is_quantum e =
     (case e of
        Call name c r \<Rightarrow> name \<in> set quantum_names
      | Method l name c r \<Rightarrow> name = ''apply_layer''
      | Print parts \<Rightarrow> False)"

definition qv :: "event list \<Rightarrow> event list" where
  "qv es = filter is_quantum es"

definition guided_ctor :: "args \<Rightarrow> call" where
  "guided_ctor a = \<lparr>pos = [], kw = layer_kwargs a @ [(''print_params'', PBool False)]\<rparr>"

definition plain_ctor :: "args \<Rightarrow> call" where
  "plain_ctor a = \<lparr>pos = [], kw = layer_kwargs a\<rparr>"

definition scale_call :: "args \<Rightarrow> matrix \<Rightarrow> real \<Rightarrow> call" where
  "scale_call a x spectral = \<lparr>pos = [PArray x, PFloat spectral, PFloat (detuning_max a)], kw = []\<rparr>"

definition train_call :: "args \<Rightarrow> matrix \<Rightarrow> call" where
  "train_call a xs =
     \<lparr>pos = [],
      kw = [(''x'', PArray xs), (''n_shots'', PInt (n_shots a)),
            (''show_progress'', PBool (\<not> no_progress a))]\<rparr>"

definition test_call :: "args \<Rightarrow> matrix \<Rightarrow> call" where
  "test_call a test_features =
     \<lparr>pos = [PArray test_features],
      kw = [(''n_shots'', PInt (n_shots a)), (''show_progress'', PBool (\<not> no_progress a))]\<rparr>"

text \<open>The layer events from the scaling on, in a run that went through: with the
  layer of the guided branch reused, and with the layer built after the scaling.\<close>

definition reused_layer_run ::
  "args \<Rightarrow> obj \<Rightarrow> matrix \<Rightarrow> real \<Rightarrow> matrix \<Rightarrow> matrix \<Rightarrow> matrix \<Rightarrow> matrix \<Rightarrow> matrix \<Rightarrow> event list" where
  "reused_layer_run a l raw spectral test_raw xs test_features emb test_emb =
     [Call ''scale_to_detuning_range'' (scale_call a raw spectral) (Inr (PArray xs)),
      Call ''scale_to_detuning_range'' (scale_call a test_raw spectral) (Inr (PArray test_features)),
      Method l ''apply_layer'' (train_call a xs) (Inr (PArray emb)),
      Method l ''apply_layer'' (test_call a test_features) (Inr (PArray test_emb))]"

definition new_layer_run ::
  "args \<Rightarrow> obj \<Rightarrow> matrix \<Rightarrow> real \<Rightarrow> matrix \<Rightarrow> matrix \<Rightarrow> matrix \<Rightarrow> matrix \<Rightarrow> matrix \<Rightarrow> event list" where
  "new_layer_run a l raw spectral test_raw xs test_features emb test_emb =
     [Call ''scale_to_detuning_range'' (scale_call a raw spectral) (Inr (PArray xs)),
      Call ''scale_to_detuning_range'' (scale_call a test_raw spectral) (Inr (PArray test_features)),
      Call ''DetuningLayer'' (plain_ctor a) (Inr (PObj l)),
      Method l ''apply_layer'' (train_call a xs) (Inr (PArray emb)),
      Method l ''apply_layer'' (test_call a test_features) (Inr (PArray test_emb))]"

text \<open>The reducers' events in a run that went through: in the two branches that
  build the layer later, where \<open>n\<close> is the reducer of the training data, and in the
  guided branch.\<close>

definition plain_reduction ::
  "string \<Rightarrow> call \<Rightarrow> call \<Rightarrow> matrix \<Rightarrow> obj \<Rightarrow> real \<Rightarrow> matrix \<Rightarrow> event list" where
  "plain_reduction n c1 c2 raw model spectral test_raw =
     [Call n c1 (Inr (reduction_value (raw, model, spectral))),
      Call (n @ ''_to_test_data'') c2 (Inr (PArray test_raw))]"

definition guided_reduction ::
  "args \<Rightarrow> obj \<Rightarrow> call \<Rightarrow> call \<Rightarrow> matrix \<Rightarrow> obj \<Rightarrow> real \<Rightarrow> matrix \<Rightarrow> event list" where
  "guided_reduction a l c1 c2 raw model spectral test_raw =
     [Call ''DetuningLayer'' (guided_ctor a) (Inr (PObj l)),
      Call ''apply_guided_autoencoder'' c1 (Inr (reduction_value (raw, model, spectral))),
      Call ''apply_guided_autoencoder_to_test_data'' c2 (Inr (PArray test_raw))]"

text \<open>The layer events of a whole run that went through: the loading of the data,
  and then what the branch of the reduction method does. (With a method main does
  not know, no run goes through.)\<close>

definition main_run ::
  "args \<Rightarrow> call \<Rightarrow> dataset \<times> dataset \<Rightarrow> obj \<Rightarrow> call \<Rightarrow> call \<Rightarrow> matrix \<Rightarrow> obj \<Rightarrow> real \<Rightarrow> matrix \<Rightarrow>
     matrix \<Rightarrow> matrix \<Rightarrow> matrix \<Rightarrow> matrix \<Rightarrow> event list" where
  "main_run a c0 datasets l c1 c2 raw model spectral test_raw xs test_features emb test_emb =
     Call ''load_dataset'' c0 (Inr (datasets_value datasets)) #
     (if py_lower (reduction_method a) = ''guided_autoencoder''
      then guided_reduction a l c1 c2 raw model spectral test_raw @
           reused_layer_run a l raw spectral test_raw xs test_features emb test_emb
      else if py_lower (reduction_method a) = ''pca'' \<or>
              py_lower (reduction_method a) = ''autoencoder''
      then plain_reduction (''apply_'' @ py_lower (reduction_method a)) c1 c2 raw model spectral
             test_raw @
           new_layer_run a l raw spectral test_raw xs test_features emb test_emb
      else [])"

text \<open>The reducers of a run were given the training data and then the test data.\<close>

definition data_flow :: "pyval list \<Rightarrow> event list \<Rightarrow> bool" where
  "data_flow datasets es =
     initial_segment (map (\<lambda>(n, c, r). argument ''data'' 0 c) (reducer_calls es))
       (map Some datasets)"

text \<open>
  A run may end early, where a collaborator raises or main does. \<open>failure_of f e\<close>:
  the event \<open>e\<close> is the call of \<open>f\<close>, which returned, raising instead. \<open>cutoff F es\<close>:
  the events \<open>es\<close> are the events \<open>F\<close> of a run that went through, up to some
  point, where the last call may have raised.
\<close>

fun failure_of :: "event \<Rightarrow> event \<Rightarrow> bool" where
  "failure_of (Call n c (Inr v)) (Call n' c' (Inl x)) = (n' = n \<and> c' = c)"
| "failure_of (Method l n c (Inr v)) (Method l' n' c' (Inl x)) = (l' = l \<and> n' = n \<and> c' = c)"
| "failure_of f e = False"

fun cutoff :: "event list \<Rightarrow> event list \<Rightarrow> bool" where
  "cutoff F [] = True"
| "cutoff [] (e # es) = False"
| "cutoff (f # F) (e # es) = ((e = f \<and> cutoff F es) \<or> (es = [] \<and> failure_of f e))"

section \<open>NeuralNetwork: which arguments the constructor rejects\<close>

lemma py_lower_names:
  "py_lower ''relu'' = ''relu''" "py_lower ''leaky_relu'' = ''leaky_relu''"
  "py_lower ''tanh'' = ''tanh''" "py_lower ''sigmoid'' = ''sigmoid''"
  by (simp_all add: py_lower_def lower_char_def)

lemma rejected_activation_Str:
  "rejected_activation (Str s) \<longleftrightarrow>
     py_lower s \<noteq> ''relu'' \<and> py_lower s \<noteq> ''leaky_relu'' \<and>
     py_lower s \<noteq> ''tanh'' \<and> py_lower s \<noteq> ''sigmoid''"
  by (simp add: rejected_activation_def activation_names_def ci_equal_def py_lower_names)

lemma rejected_activation_Mod: "\<not> rejected_activation (Mod m)"
  by (simp add: rejected_activation_def)

lemma act_fn_of_Inl:
  "act_fn_of a = Inl e \<longleftrightarrow> (\<exists>s. a = Str s \<and> rejected_activation a \<and> e = unknown_activation s)"
  by (cases a) (auto simp: act_fn_of_def rejected_activation_Str rejected_activation_Mod)

lemma act_fn_of_Inr: "(\<exists>m. act_fn_of a = Inr m) \<longleftrightarrow> \<not> rejected_activation a"
  by (cases a) (auto simp: act_fn_of_def rejected_activation_Str rejected_activation_Mod)

text \<open>The loop raises ValueError exactly when its first round reaches
  \<^verbatim>\<open>nn.Dropout\<close> with a probability above one.\<close>

lemma hidden_loop_ValueError:
  "raises ValueError (hidden_loop ls p hs act dr bn) \<longleftrightarrow>
     (hs \<noteq> [] \<and> 0 \<le> p \<and> 0 \<le> hd hs \<and> dr > 1)"
proof (induction hs arbitrary: ls p bn)
  case Nil
  show ?case by simp
next
  case (Cons h hs)
  show ?case
    by (auto simp: nn_Linear_def nn_BatchNorm1d_def nn_Dropout_def negative_dimension_def Cons.IH
        split: sum.splits)
qed

lemma hidden_loop_errors:
  "hidden_loop ls p hs act dr bn = Inl e \<Longrightarrow>
     (\<exists>d. e = negative_dimension d) \<or>
     e = Exc ValueError [Txt ''dropout probability has to be between 0 and 1, but got '', Flt dr]"
proof (induction hs arbitrary: ls p bn)
  case Nil
  then show ?case by simp
next
  case (Cons h hs)
  then show ?case
    by (auto simp: nn_Linear_def nn_BatchNorm1d_def nn_Dropout_def split: sum.splits if_splits)
qed

lemma hidden_loop_unknown: "hidden_loop ls p hs act dr bn \<noteq> Inl (unknown_activation s)"
  using hidden_loop_errors [of ls p hs act dr bn "unknown_activation s"]
  by (auto simp: unknown_activation_def negative_dimension_def)

lemma nn_Linear_unknown: "nn_Linear i j \<noteq> Inl (unknown_activation s)"
  by (simp add: nn_Linear_def unknown_activation_def negative_dimension_def)

lemma nn_Linear_ValueError: "\<not> raises ValueError (nn_Linear i j)"
  by (simp add: nn_Linear_def negative_dimension_def)

lemma hidden_loop_set:
  "hidden_loop ls p hs act dr bn = Inr (ls', p') \<Longrightarrow> set ls \<subseteq> set ls'"
proof (induction hs arbitrary: ls p bn)
  case Nil
  then show ?case by simp
next
  case (Cons h hs)
  from Cons.prems show ?case
    by (auto split: sum.splits if_splits dest!: Cons.IH)
qed

lemma hidden_loop_act:
  "hidden_loop ls p hs act dr bn = Inr (ls', p') \<Longrightarrow> hs \<noteq> [] \<Longrightarrow> act \<in> set ls'"
  by (cases hs) (auto split: sum.splits if_splits dest!: hidden_loop_set)

lemma unknown_activation_inject: "unknown_activation s = unknown_activation t \<longleftrightarrow> s = t"
  by (simp add: unknown_activation_def)

lemma init_unknown:
  "NeuralNetwork_init i o' hs a dr bn = Inl (unknown_activation s) \<longleftrightarrow>
     a = Str s \<and> rejected_activation a"
proof (cases "act_fn_of a")
  case (Inl e)
  then obtain t where t: "a = Str t" "rejected_activation a" "e = unknown_activation t"
    using act_fn_of_Inl [of a e] by blast
  from Inl t show ?thesis
    by (auto simp: NeuralNetwork_init_def unknown_activation_inject)
next
  case (Inr m)
  then have nr: "\<not> rejected_activation a" using act_fn_of_Inr [of a] by blast
  show ?thesis
  proof (cases "hidden_loop [] i hs m dr bn")
    case (Inl e)
    with Inr nr hidden_loop_unknown [of "[]" i hs m dr bn s] show ?thesis
      by (simp add: NeuralNetwork_init_def)
  next
    case (Inr r)
    with \<open>act_fn_of a = Inr m\<close> nr nn_Linear_unknown [of "snd r" o' s]
    show ?thesis
      by (cases r; cases "nn_Linear (snd r) o'") (auto simp: NeuralNetwork_init_def)
  qed
qed

lemma init_ValueError:
  "raises ValueError (NeuralNetwork_init i o' hs a dr bn) \<longleftrightarrow>
     rejected_activation a \<or> (hs \<noteq> [] \<and> 0 \<le> i \<and> 0 \<le> hd hs \<and> dr > 1)"
proof (cases "act_fn_of a")
  case (Inl e)
  then obtain t where t: "a = Str t" "rejected_activation a" "e = unknown_activation t"
    using act_fn_of_Inl [of a e] by blast
  from Inl t show ?thesis
    by (simp add: NeuralNetwork_init_def unknown_activation_def)
next
  case (Inr m)
  then have nr: "\<not> rejected_activation a" using act_fn_of_Inr [of a] by blast
  show ?thesis
  proof (cases "hidden_loop [] i hs m dr bn")
    case (Inl e)
    with Inr nr hidden_loop_ValueError [of "[]" i hs m dr bn] show ?thesis
      by (simp add: NeuralNetwork_init_def)
  next
    case (Inr r)
    with \<open>act_fn_of a = Inr m\<close> nr hidden_loop_ValueError [of "[]" i hs m dr bn]
      nn_Linear_ValueError [of "snd r" o']
    show ?thesis
      by (cases r; cases "nn_Linear (snd r) o'") (auto simp: NeuralNetwork_init_def)
  qed
qed

lemma init_Mod:
  "NeuralNetwork_init i o' hs (Mod m) dr bn = Inr nn \<Longrightarrow> hs \<noteq> [] \<Longrightarrow> m \<in> set (layers nn)"
  by (auto simp: NeuralNetwork_init_def act_fn_of_def split: sum.splits prod.splits
      dest: hidden_loop_act)

text \<open>
  Claim C9, as stated: the constructor raises ValueError if and only if the
  activation is a string that is not, up to case, one of the four names. This fails:
  with the known activation \<^verbatim>\<open>"relu"\<close>, two hidden layers and \<^verbatim>\<open>dropout=1.5\<close> the
  constructor raises ValueError, from \<^verbatim>\<open>nn.Dropout\<close> in the first round of the loop.
\<close>

theorem NeuralNetwork_init_dropout_counterexample:
  "\<not> (raises ValueError (NeuralNetwork_init 4 2 [100, 100] (Str ''relu'') (3 / 2) False) \<longleftrightarrow>
      rejected_activation (Str ''relu''))"
  by (simp add: init_ValueError rejected_activation_Str py_lower_names)

text \<open>
  Claim C9, amended. The constructor raises its own ValueError, ``Unknown activation
  function'', if and only if the activation is a string that is not, up to case, one
  of \<^verbatim>\<open>relu\<close>, \<^verbatim>\<open>leaky_relu\<close>, \<^verbatim>\<open>tanh\<close>, \<^verbatim>\<open>sigmoid\<close>. It raises a ValueError of any
  kind if and only if the activation is such a string, or a hidden layer is built
  (non-negative sizes) with a dropout above one. An activation that is not a string
  is taken as it is, without a check, and stands in the network after every hidden
  linear layer.
\<close>

theorem NeuralNetwork_init_ValueError:
  "(NeuralNetwork_init input_dim output_dim hidden_dims a dropout batch_norm =
      Inl (unknown_activation s) \<longleftrightarrow> a = Str s \<and> rejected_activation a) \<and>
   (raises ValueError (NeuralNetwork_init input_dim output_dim hidden_dims a dropout batch_norm) \<longleftrightarrow>
      rejected_activation a \<or>
      (hidden_dims \<noteq> [] \<and> 0 \<le> input_dim \<and> 0 \<le> hd hidden_dims \<and> dropout > 1)) \<and>
   act_fn_of (Mod m) = Inr m \<and>
   (NeuralNetwork_init input_dim output_dim hidden_dims (Mod m) dropout batch_norm = Inr nn \<longrightarrow>
      hidden_dims \<noteq> [] \<longrightarrow> m \<in> set (layers nn))"
  using init_unknown [of input_dim output_dim hidden_dims a dropout batch_norm s]
    init_ValueError [of input_dim output_dim hidden_dims a dropout batch_norm]
    init_Mod [of input_dim output_dim hidden_dims m dropout batch_norm nn]
  by (simp add: act_fn_of_def)

theorem NeuralNetwork_init_ValueError_witness:
  "NeuralNetwork_init 4 2 [3] (Str ''ReLUx'') 0 False = Inl (unknown_activation ''ReLUx'') \<and>
   rejected_activation (Str ''ReLUx'') \<and>
   NeuralNetwork_init 4 2 [3] (Mod (Module 7)) 0 False =
     Inr \<lparr>layers = [Linear 4 3, Module 7, Linear 3 2, Softmax 1]\<rparr> \<and>
   Module 7 \<in> set (layers \<lparr>layers = [Linear 4 3, Module 7, Linear 3 2, Softmax 1]\<rparr>)"
proof -
  have rej: "rejected_activation (Str ''ReLUx'')"
    by (simp add: rejected_activation_Str py_lower_def lower_char_def)
  have built: "NeuralNetwork_init 4 2 [3] (Mod (Module 7)) 0 False =
      Inr \<lparr>layers = [Linear 4 3, Module 7, Linear 3 2, Softmax 1]\<rparr>"
    by (simp add: NeuralNetwork_init_def act_fn_of_def nn_Linear_def)
  from rej built
    NeuralNetwork_init_ValueError [of 4 2 "[3]" "Str ''ReLUx''" 0 False "''ReLUx''" "Module 7"
      "\<lparr>layers = [Linear 4 3, Module 7, Linear 3 2, Softmax 1]\<rparr>"]
    NeuralNetwork_init_ValueError [of 4 2 "[3]" "Mod (Module 7)" 0 False "''x''" "Module 7"
      "\<lparr>layers = [Linear 4 3, Module 7, Linear 3 2, Softmax 1]\<rparr>"]
  show ?thesis by simp
qed

section \<open>LinearClassifier: the rows of the output\<close>









section \<open>QRCModel: the classifier attribute\<close>

text \<open>
  Claim C10. Built with \<^verbatim>\<open>classifier=None\<close>, the model's \<^verbatim>\<open>classifier\<close> attribute is
  the class \<^verbatim>\<open>LinearClassifier\<close> itself and no instance; and \<^verbatim>\<open>fit\<close> does the same
  whatever the attribute holds.
\<close>

theorem QRCModel_default_classifier:
  "classifier (QRCModel_init l None) = LinearClassifier_class \<and>
   (\<forall>i. classifier (QRCModel_init l None) \<noteq> Instance i) \<and>
   (\<forall>c. QRCModel_fit env (self\<lparr>classifier := c\<rparr>) x_train y_train x_test y_test kwargs =
        QRCModel_fit env self x_train y_train x_test y_test kwargs)"
  by (simp add: QRCModel_init_def QRCModel_fit_def)

end
